theory Spec2Isabelle
  imports Main "HOL-Library.Word"
begin

section \<open>Values of the Terraform plugin framework\<close>

text \<open>
  The provider is written against the Terraform plugin framework. Every attribute value
  of the framework (\<^verbatim>\<open>types.String\<close>, \<^verbatim>\<open>types.Bool\<close>, \<^verbatim>\<open>types.Int64\<close>,
  \<^verbatim>\<open>types.Map\<close>, \<^verbatim>\<open>types.List\<close>, an object) is null, unknown or known. The zero value
  of such a Go type is the null value.
\<close>

datatype 'a tfvalue = Null | Unknown | Known 'a

type_synonym types_String = "string tfvalue"
type_synonym types_Bool = "bool tfvalue"
type_synonym types_Int64 = "64 word tfvalue"

text \<open>
  A \<^verbatim>\<open>types.Map\<close> with string elements: its entries in the order in which the
  framework lists them, each element a \<^verbatim>\<open>types.String\<close>.
\<close>

type_synonym types_Map = "(string \<times> types_String) list tfvalue"

text \<open>
  A Go \<^verbatim>\<open>map[string]string\<close>: \<open>None\<close> is the nil map, \<open>Some kvs\<close> a map with the
  entries \<open>kvs\<close>.
\<close>

type_synonym go_map = "(string \<times> string) list option"

fun IsNull :: "'a tfvalue \<Rightarrow> bool" where
  "IsNull Null = True"
| "IsNull _ = False"

fun IsUnknown :: "'a tfvalue \<Rightarrow> bool" where
  "IsUnknown Unknown = True"
| "IsUnknown _ = False"

fun IsKnown :: "'a tfvalue \<Rightarrow> bool" where
  "IsKnown (Known _) = True"
| "IsKnown _ = False"

text \<open>\<^verbatim>\<open>ValueString\<close> and \<^verbatim>\<open>ValueBool\<close> give the Go zero value for null and unknown.\<close>

fun ValueString :: "types_String \<Rightarrow> string" where
  "ValueString (Known s) = s"
| "ValueString _ = ''''"

fun ValueBool :: "types_Bool \<Rightarrow> bool" where
  "ValueBool (Known b) = b"
| "ValueBool _ = False"

text \<open>\<^verbatim>\<open>Elements\<close> of a list or map value: empty for null and unknown.\<close>

fun Elements :: "'a list tfvalue \<Rightarrow> 'a list" where
  "Elements (Known es) = es"
| "Elements _ = []"

subsection \<open>Diagnostics\<close>

datatype severity = SeverityError | SeverityWarning

record diagnostic =
  Severity :: severity
  Summary :: string
  Detail :: string

definition HasError :: "diagnostic list \<Rightarrow> bool" where
  "HasError ds = list_ex (\<lambda>d. Severity d = SeverityError) ds"

text \<open>
  \<^verbatim>\<open>Diagnostics.Append\<close> adds the diagnostics one by one and skips one that the
  diagnostics already contain; \<^verbatim>\<open>AddError\<close> appends a new error diagnostic.
\<close>

fun Append :: "diagnostic list \<Rightarrow> diagnostic list \<Rightarrow> diagnostic list" where
  "Append ds [] = ds"
| "Append ds (d # rest) = Append (if d \<in> set ds then ds else ds @ [d]) rest"

definition AddError :: "diagnostic list \<Rightarrow> string \<Rightarrow> string \<Rightarrow> diagnostic list" where
  "AddError ds s d = Append ds [\<lparr>Severity = SeverityError, Summary = s, Detail = d\<rparr>]"

text \<open>
  The error diagnostic of a conversion that failed. The framework's detail text is long
  and names the path and the target type of the value; the model keeps one short text for
  every failed conversion, and no statement below depends on it.
\<close>

definition conversion_error :: diagnostic where
  "conversion_error =
     \<lparr>Severity = SeverityError, Summary = ''Value Conversion Error'',
      Detail = ''unhandled null or unknown value''\<rparr>"

subsection \<open>Conversion of framework values into Go values\<close>

text \<open>
  The framework converts a value into a Go target by reflection. With unhandled null and
  unknown values not allowed (the \<^verbatim>\<open>false\<close> passed to \<^verbatim>\<open>ElementsAs\<close>, the default of
  \<^verbatim>\<open>Arguments.Get\<close>), an unknown value never converts; a null value converts only into
  a target that can be nil (a slice, a map), which becomes nil. \<open>None\<close> is a failed
  conversion.
\<close>

fun reflect_String :: "types_String \<Rightarrow> string option" where
  "reflect_String (Known s) = Some s"
| "reflect_String _ = None"

fun reflect_Map :: "types_Map \<Rightarrow> go_map option" where
  "reflect_Map Null = Some None"
| "reflect_Map Unknown = None"
| "reflect_Map (Known kvs) =
     (if list_all (\<lambda>kv. IsKnown (snd kv)) kvs
      then Some (Some (map (\<lambda>kv. (fst kv, ValueString (snd kv))) kvs))
      else None)"

text \<open>
  A struct target holds framework values in every field, so a known object always converts;
  a null or unknown object does not (a struct cannot be nil).
\<close>

fun reflect_Struct :: "'a tfvalue \<Rightarrow> 'a option" where
  "reflect_Struct (Known x) = Some x"
| "reflect_Struct _ = None"

fun reflect_Slice :: "'a tfvalue list tfvalue \<Rightarrow> 'a list option" where
  "reflect_Slice Null = Some []"
| "reflect_Slice Unknown = None"
| "reflect_Slice (Known es) =
     (if list_all IsKnown es then Some (map (\<lambda>e. the (reflect_Struct e)) es) else None)"

text \<open>
  \<^verbatim>\<open>ElementsAs(ctx, &target, false)\<close>: the diagnostics and the target afterwards, which a
  failed conversion leaves as it was.
\<close>

definition Map_ElementsAs :: "types_Map \<Rightarrow> go_map \<Rightarrow> diagnostic list \<times> go_map" where
  "Map_ElementsAs v target =
     (case reflect_Map v of None \<Rightarrow> ([conversion_error], target) | Some m \<Rightarrow> ([], m))"

definition List_ElementsAs :: "'a tfvalue list tfvalue \<Rightarrow> 'a list \<Rightarrow> diagnostic list \<times> 'a list" where
  "List_ElementsAs v target =
     (case reflect_Slice v of None \<Rightarrow> ([conversion_error], target) | Some xs \<Rightarrow> ([], xs))"

section \<open>The form resource\<close>

subsection \<open>Resource models\<close>

record FormFieldResourceModel =
  Field_Id :: types_String
  Field_Type :: types_String
  Field_Title :: types_Map
  Field_Info :: types_String
  Field_Placeholder :: types_String
  Field_Optional :: types_Bool

record FormResourceModel =
  Form_Id :: types_Int64
  OrganizationId :: types_String
  Title :: types_String
  Fields :: "FormFieldResourceModel tfvalue list tfvalue"

text \<open>
  The attribute \<^verbatim>\<open>Id\<close> of the form model is the field \<open>Form_Id\<close> (\<open>Id\<close> is the
  identity relation of HOL). The Go zero values of the two structs have every attribute
  null.
\<close>

definition zero_FormFieldResourceModel :: FormFieldResourceModel where
  "zero_FormFieldResourceModel =
     \<lparr>Field_Id = Null, Field_Type = Null, Field_Title = Null, Field_Info = Null,
      Field_Placeholder = Null, Field_Optional = Null\<rparr>"

definition zero_FormResourceModel :: FormResourceModel where
  "zero_FormResourceModel = \<lparr>Form_Id = Null, OrganizationId = Null, Title = Null, Fields = Null\<rparr>"

text \<open>
  A plan or a state (\<^verbatim>\<open>tfsdk.Plan\<close>, \<^verbatim>\<open>tfsdk.State\<close>) of the form schema: the form
  object, null when there is none. \<^verbatim>\<open>Get\<close> converts it into the model struct,
  \<^verbatim>\<open>Set\<close> stores a model.
\<close>

type_synonym tfsdk_data = "FormResourceModel tfvalue"

definition Get :: "tfsdk_data \<Rightarrow> FormResourceModel \<Rightarrow> diagnostic list \<times> FormResourceModel" where
  "Get raw target =
     (case reflect_Struct raw of None \<Rightarrow> ([conversion_error], target) | Some m \<Rightarrow> ([], m))"

definition Set_data :: "tfsdk_data \<Rightarrow> FormResourceModel \<Rightarrow> diagnostic list \<times> tfsdk_data" where
  "Set_data raw m = ([], Known m)"

subsection \<open>The generated REST client\<close>

text \<open>
  Modelled from the spec: the generated REST client \<^verbatim>\<open>remsclient\<close> (an OpenAPI binding
  that the spec excludes) is not among the sources. Its command types are the structs
  that the constructors and setters used by \<^verbatim>\<open>FormResource.Create\<close> fill: a setter stores
  its argument in the field it names, \<^verbatim>\<open>SetFormTitleNil\<close> stores an explicit nil, and
  \<^verbatim>\<open>GetId\<close> and \<^verbatim>\<open>GetErrors\<close> give the zero value for an absent field.
\<close>

record remsclient_OrganizationId =
  OrganizationId_value :: string

record NullableString =
  ns_value :: "string option"
  ns_isSet :: bool

record NewFieldTemplate =
  FieldTitle :: go_map
  FieldType :: string
  FieldOptional :: bool
  FieldId :: "string option"

record CreateFormCommand =
  Organization :: remsclient_OrganizationId
  FormTitle :: NullableString
  FormFields :: "NewFieldTemplate list option"

record CreateFormResponse =
  Success :: bool
  Response_Id :: "64 word option"
  Response_Errors :: "string list option"

record http_Response =
  Status :: string
  fmt_v :: string

text \<open>
  Modelled from the spec: the constructors and setters of \<^verbatim>\<open>remsclient\<close> are not among
  the sources. A constructor fills the required fields it is given and leaves the others
  unset; a setter stores its argument.
\<close>

definition NewOrganizationId :: "string \<Rightarrow> remsclient_OrganizationId" where
  "NewOrganizationId s = \<lparr>OrganizationId_value = s\<rparr>"

definition NewCreateFormCommandWithDefaults :: CreateFormCommand where
  "NewCreateFormCommandWithDefaults =
     \<lparr>Organization = \<lparr>OrganizationId_value = ''''\<rparr>,
      FormTitle = \<lparr>ns_value = None, ns_isSet = False\<rparr>,
      FormFields = None\<rparr>"

definition SetOrganization :: "CreateFormCommand \<Rightarrow> remsclient_OrganizationId \<Rightarrow> CreateFormCommand" where
  "SetOrganization c v = c\<lparr>Organization := v\<rparr>"

definition SetFormTitle :: "CreateFormCommand \<Rightarrow> string \<Rightarrow> CreateFormCommand" where
  "SetFormTitle c v = c\<lparr>FormTitle := \<lparr>ns_value = Some v, ns_isSet = True\<rparr>\<rparr>"

definition SetFormTitleNil :: "CreateFormCommand \<Rightarrow> CreateFormCommand" where
  "SetFormTitleNil c = c\<lparr>FormTitle := \<lparr>ns_value = None, ns_isSet = True\<rparr>\<rparr>"

definition SetFormFields :: "CreateFormCommand \<Rightarrow> NewFieldTemplate list \<Rightarrow> CreateFormCommand" where
  "SetFormFields c v = c\<lparr>FormFields := Some v\<rparr>"

definition NewNewFieldTemplate :: "go_map \<Rightarrow> string \<Rightarrow> bool \<Rightarrow> NewFieldTemplate" where
  "NewNewFieldTemplate fieldTitle fieldType fieldOptional =
     \<lparr>FieldTitle = fieldTitle, FieldType = fieldType, FieldOptional = fieldOptional,
      FieldId = None\<rparr>"

definition SetFieldId :: "NewFieldTemplate \<Rightarrow> string \<Rightarrow> NewFieldTemplate" where
  "SetFieldId f v = f\<lparr>FieldId := Some v\<rparr>"

text \<open>
  Modelled from the spec: the getters of \<^verbatim>\<open>remsclient\<close> are not among the sources. A
  getter gives the zero value for a field that is absent.
\<close>

definition GetId :: "CreateFormResponse \<Rightarrow> 64 word" where
  "GetId r = (case Response_Id r of None \<Rightarrow> 0 | Some i \<Rightarrow> i)"

definition GetErrors :: "CreateFormResponse \<Rightarrow> string list" where
  "GetErrors r = (case Response_Errors r of None \<Rightarrow> [] | Some es \<Rightarrow> es)"

text \<open>
  Modelled from the spec: \<^verbatim>\<open>Execute\<close> of \<^verbatim>\<open>remsclient\<close> is not among the sources. It
  returns an error with the HTTP response if there was one, or the decoded result with
  the HTTP response.
\<close>

datatype execute_outcome =
  ExecuteError string "http_Response option"
| ExecuteOk CreateFormResponse http_Response

text \<open>
  The REMS server is outside the program: the client is a function from the command sent
  to the outcome of the request. Every operation of the provider returns, beside its
  response, the REST calls it issued, in order.
\<close>

datatype rems_call = ApiFormsCreatePost CreateFormCommand

type_synonym remsclient_APIClient = "CreateFormCommand \<Rightarrow> execute_outcome"

text \<open>The resource holds the client that \<^verbatim>\<open>Configure\<close> stored, nil before that.\<close>

record FormResource =
  client :: "remsclient_APIClient option"

subsection \<open>Requests and responses of the resource\<close>

record resource_CreateRequest =
  CreateRequest_Plan :: tfsdk_data

record resource_ReadRequest =
  ReadRequest_State :: tfsdk_data

record resource_UpdateRequest =
  UpdateRequest_Plan :: tfsdk_data

record resource_DeleteRequest =
  DeleteRequest_State :: tfsdk_data

text \<open>
  \<^verbatim>\<open>CreateResponse\<close>, \<^verbatim>\<open>ReadResponse\<close>, \<^verbatim>\<open>UpdateResponse\<close> and \<^verbatim>\<open>DeleteResponse\<close>
  all carry the state and the diagnostics; the operation updates the response it is given.
\<close>

record resource_Response =
  State :: tfsdk_data
  Diagnostics :: "diagnostic list"

definition Diagnostics_Append :: "resource_Response \<Rightarrow> diagnostic list \<Rightarrow> resource_Response" where
  "Diagnostics_Append resp ds = resp\<lparr>Diagnostics := Append (Diagnostics resp) ds\<rparr>"

definition State_Set :: "resource_Response \<Rightarrow> FormResourceModel \<Rightarrow> resource_Response" where
  "State_Set resp m =
     (case Set_data (State resp) m of
        (ds, raw) \<Rightarrow> Diagnostics_Append (resp\<lparr>State := raw\<rparr>) ds)"

subsection \<open>Configure\<close>

text \<open>
  The provider data handed to \<^verbatim>\<open>Configure\<close>: nil, a client, or a value of another type
  (with the name of its type as \<^verbatim>\<open>%T\<close> prints it). \<^verbatim>\<open>Configure\<close> stores the client in
  the resource.
\<close>

datatype provider_data = NilData | APIClientData remsclient_APIClient | OtherData string

definition Configure ::
  "FormResource \<Rightarrow> provider_data \<Rightarrow> diagnostic list \<Rightarrow> FormResource \<times> diagnostic list" where
  "Configure r ProviderData diags =
     (case ProviderData of
        NilData \<Rightarrow> (r, diags)
      | OtherData ty \<Rightarrow>
          (r, AddError diags ''Unexpected Resource Configure Type''
                (''Expected *remsclient.APIClient, got: '' @ ty
                   @ ''. Please report this issue to the provider developers.''))
      | APIClientData c \<Rightarrow> (r\<lparr>client := Some c\<rparr>, diags))"

subsection \<open>Formatting\<close>

fun fmt_strings :: "string list \<Rightarrow> string" where
  "fmt_strings [] = ''''"
| "fmt_strings [x] = x"
| "fmt_strings (x # xs) = x @ '' '' @ fmt_strings xs"

definition fmt_slice :: "string list \<Rightarrow> string" where
  "fmt_slice xs = ''['' @ fmt_strings xs @ '']''"

definition fmt_response :: "http_Response option \<Rightarrow> string" where
  "fmt_response r = (case r of None \<Rightarrow> ''<nil>'' | Some h \<Rightarrow> fmt_v h)"

subsection \<open>Create\<close>

text \<open>The field built from one model field whose title converted to \<open>titleMap\<close>.\<close>

definition newField :: "go_map \<Rightarrow> FormFieldResourceModel \<Rightarrow> NewFieldTemplate" where
  "newField titleMap modelFieldValue =
     (let nf = NewNewFieldTemplate titleMap
                 (ValueString (Field_Type modelFieldValue))
                 (ValueBool (Field_Optional modelFieldValue))
      in if \<not> IsNull (Field_Id modelFieldValue)
         then SetFieldId nf (ValueString (Field_Id modelFieldValue))
         else nf)"

text \<open>
  The loop over the model fields. It threads the diagnostics of the response and the
  fields built so far; \<open>None\<close> in the second component is the early return from inside
  the loop.
\<close>

fun fields_loop ::
  "diagnostic list \<Rightarrow> FormFieldResourceModel list \<Rightarrow> NewFieldTemplate list
     \<Rightarrow> diagnostic list \<times> NewFieldTemplate list option" where
  "fields_loop diags [] newFields = (diags, Some newFields)"
| "fields_loop diags (modelFieldValue # rest) newFields =
     (if \<not> IsNull (Field_Title modelFieldValue) \<and> \<not> IsUnknown (Field_Title modelFieldValue)
      then (case Map_ElementsAs (Field_Title modelFieldValue) None of
              (titleDiags, titleMap) \<Rightarrow>
                (let diags' = Append diags titleDiags
                 in if HasError diags' then (diags', None)
                    else fields_loop diags' rest (newFields @ [newField titleMap modelFieldValue])))
      else fields_loop diags rest newFields)"

text \<open>
  The last part of \<^verbatim>\<open>FormResource.Create\<close>: the REST call with the finished command
  and what follows it. The result is \<open>None\<close> when the Go code panics (the nil client is
  dereferenced), otherwise the response and the REST calls issued. The two log lines
  (\<^verbatim>\<open>tflog.Info\<close>, \<^verbatim>\<open>tflog.Trace\<close>) write to the log only.
\<close>

definition Create_execute ::
  "FormResource \<Rightarrow> FormResourceModel \<Rightarrow> CreateFormCommand \<Rightarrow> resource_Response
     \<Rightarrow> (resource_Response \<times> rems_call list) option" where
  "Create_execute r resourceModel formConfig resp =
     (case client r of
        None \<Rightarrow> None
      | Some api \<Rightarrow>
          (case api formConfig of
             ExecuteError createErr createResponse \<Rightarrow>
               Some (resp\<lparr>Diagnostics := AddError (Diagnostics resp) ''Failure to create form''
                        (''Could not create form: '' @ createErr @ '' ''
                           @ fmt_response createResponse)\<rparr>,
                     [ApiFormsCreatePost formConfig])
           | ExecuteOk createResult createResponse \<Rightarrow>
               if \<not> Success createResult
               then Some (resp\<lparr>Diagnostics := AddError (Diagnostics resp) ''Failure to create form''
                             (''Could not create form: '' @ fmt_slice (GetErrors createResult))\<rparr>,
                          [ApiFormsCreatePost formConfig])
               else Some (State_Set resp (resourceModel\<lparr>Form_Id := Known (GetId createResult)\<rparr>),
                          [ApiFormsCreatePost formConfig])))"

text \<open>The command before its fields are set: the organization and the title.\<close>

definition formConfig_title :: "FormResourceModel \<Rightarrow> CreateFormCommand" where
  "formConfig_title resourceModel =
     (let orgId = NewOrganizationId (ValueString (OrganizationId resourceModel));
          formConfig = SetOrganization NewCreateFormCommandWithDefaults orgId
      in if IsNull (Title resourceModel)
         then SetFormTitleNil formConfig
         else SetFormTitle formConfig (ValueString (Title resourceModel)))"

text \<open>\<^verbatim>\<open>FormResource.Create\<close>, from the plan to the REST call.\<close>

definition Create ::
  "FormResource \<Rightarrow> resource_CreateRequest \<Rightarrow> resource_Response
     \<Rightarrow> (resource_Response \<times> rems_call list) option" where
  "Create r req resp =
     (case Get (CreateRequest_Plan req) zero_FormResourceModel of
        (planDiags, resourceModel) \<Rightarrow>
          (let resp1 = Diagnostics_Append resp planDiags in
           if HasError (Diagnostics resp1) then Some (resp1, [])
           else
             (case List_ElementsAs (Fields resourceModel)
                     (replicate (length (Elements (Fields resourceModel)))
                        zero_FormFieldResourceModel) of
                (modelFieldDiagnostics, modelFields) \<Rightarrow>
                  (let resp2 = (if length modelFieldDiagnostics > 0
                                then Diagnostics_Append resp1 modelFieldDiagnostics
                                else resp1) in
                   if HasError (Diagnostics resp2) then Some (resp2, [])
                   else
                     (case fields_loop (Diagnostics resp2) modelFields [] of
                        (diags3, newFieldsOpt) \<Rightarrow>
                          (case newFieldsOpt of
                             None \<Rightarrow> Some (resp2\<lparr>Diagnostics := diags3\<rparr>, [])
                           | Some newFields \<Rightarrow>
                               Create_execute r resourceModel
                                 (SetFormFields (formConfig_title resourceModel) newFields)
                                 (resp2\<lparr>Diagnostics := diags3\<rparr>)))))))"

subsection \<open>Read, Update and Delete\<close>

text \<open>
  The three other lifecycle operations as the source has them: the REST call of the
  scaffolding is a comment, so none of them touches the client.
\<close>

definition Read ::
  "FormResource \<Rightarrow> resource_ReadRequest \<Rightarrow> resource_Response
     \<Rightarrow> resource_Response \<times> rems_call list" where
  "Read r req resp =
     (case Get (ReadRequest_State req) zero_FormResourceModel of
        (stateDiags, data) \<Rightarrow>
          (let resp1 = Diagnostics_Append resp stateDiags in
           if HasError (Diagnostics resp1) then (resp1, [])
           else (State_Set resp1 data, [])))"

definition Update ::
  "FormResource \<Rightarrow> resource_UpdateRequest \<Rightarrow> resource_Response
     \<Rightarrow> resource_Response \<times> rems_call list" where
  "Update r req resp =
     (case Get (UpdateRequest_Plan req) zero_FormResourceModel of
        (planDiags, data) \<Rightarrow>
          (let resp1 = Diagnostics_Append resp planDiags in
           if HasError (Diagnostics resp1) then (resp1, [])
           else (State_Set resp1 data, [])))"

definition Delete ::
  "FormResource \<Rightarrow> resource_DeleteRequest \<Rightarrow> resource_Response
     \<Rightarrow> resource_Response \<times> rems_call list" where
  "Delete r req resp =
     (case Get (DeleteRequest_State req) zero_FormResourceModel of
        (stateDiags, data) \<Rightarrow>
          (let resp1 = Diagnostics_Append resp stateDiags in
           if HasError (Diagnostics resp1) then (resp1, [])
           else (resp1, [])))"

section \<open>The provider\<close>

text \<open>
  \<^verbatim>\<open>RemsContentProvider.Resources\<close> returns a slice of constructors of the package
  \<^verbatim>\<open>resources\<close>. Of these only \<^verbatim>\<open>NewFormResource\<close> is among the sources, so a
  constructor is represented by its identifier.
\<close>

definition Resources :: "string list" where
  "Resources =
     [''NewCatalogueItemResource'', ''NewCategoryResource'', ''NewFormResource'',
      ''NewLicenseResource'', ''NewResourceResource'', ''NewWorkflowResource'']"

text \<open>
  \<^verbatim>\<open>NewFormResource\<close> returns a form resource without client; the type name of the
  provider (\<^verbatim>\<open>RemsContentProvider.Metadata\<close>) and of the form resource
  (\<^verbatim>\<open>FormResource.Metadata\<close>).
\<close>

definition NewFormResource :: FormResource where
  "NewFormResource = \<lparr>client = None\<rparr>"

definition RemsContentProvider_TypeName :: string where
  "RemsContentProvider_TypeName = ''remscontent''"

definition FormResource_TypeName :: "string \<Rightarrow> string" where
  "FormResource_TypeName ProviderTypeName = ProviderTypeName @ ''_form''"

text \<open>
  The content objects that the spec names (forms, categories, licenses, workflows,
  catalogue items, resources), each in the singular and spelled as in a Go identifier.
\<close>

definition spec_content_objects :: "string list" where
  "spec_content_objects =
     [''Form'', ''Category'', ''License'', ''Workflow'', ''CatalogueItem'', ''Resource'']"

text \<open>
  The content object that a constructor is named after: the identifier without the
  \<^verbatim>\<open>New\<close> in front and the \<^verbatim>\<open>Resource\<close> behind, \<open>None\<close> for an identifier of
  another form.
\<close>

definition object_name :: "string \<Rightarrow> string option" where
  "object_name ident =
     (if 11 \<le> length ident \<and> take 3 ident = ''New''
           \<and> drop (length ident - 8) ident = ''Resource''
      then Some (take (length ident - 11) (drop 3 ident))
      else None)"

section \<open>The provider functions\<close>

text \<open>
  A function error is its text (the position of the argument that it may carry is left
  out); \<^verbatim>\<open>ConcatFuncErrors\<close> joins the texts of the errors that are not nil, one per
  line, and is nil when there is no text. \<^verbatim>\<open>FuncErrorFromDiags\<close> turns the error
  diagnostics into one function error, each as its summary, a colon and its detail.
\<close>

type_synonym function_FuncError = string

fun concat_texts :: "string \<Rightarrow> function_FuncError option list \<Rightarrow> string" where
  "concat_texts text [] = text"
| "concat_texts text (None # fs) = concat_texts text fs"
| "concat_texts text (Some f # fs) =
     concat_texts ((if text \<noteq> [] \<and> f \<noteq> [] then text @ [CHR 0x0A] else text) @ f) fs"

definition ConcatFuncErrors :: "function_FuncError option list \<Rightarrow> function_FuncError option" where
  "ConcatFuncErrors funcErrs =
     (let text = concat_texts [] funcErrs in if text \<noteq> [] then Some text else None)"

fun FuncErrorFromDiags_loop ::
  "function_FuncError option \<Rightarrow> diagnostic list \<Rightarrow> function_FuncError option" where
  "FuncErrorFromDiags_loop funcErr [] = funcErr"
| "FuncErrorFromDiags_loop funcErr (d # ds) =
     FuncErrorFromDiags_loop
       (if Severity d = SeverityError
        then ConcatFuncErrors [funcErr, Some (Summary d @ '': '' @ Detail d)]
        else funcErr) ds"

definition FuncErrorFromDiags :: "diagnostic list \<Rightarrow> function_FuncError option" where
  "FuncErrorFromDiags ds = FuncErrorFromDiags_loop None ds"

record 'o function_RunResponse =
  Error :: "function_FuncError option"
  Result :: "'o tfvalue"

subsection \<open>The function form-field-header\<close>

text \<open>The arguments of the request, as the definition of the function declares them.\<close>

record FormFieldHeader_Arguments =
  Arguments_field_id :: types_String
  Arguments_title :: types_Map

text \<open>The Go struct that \<^verbatim>\<open>Run\<close> builds, and the object that the function returns.\<close>

record FormFieldHeader_result =
  result_Id :: string
  result_Title :: go_map
  result_Type :: string
  result_Optional :: bool

record FormFieldHeader_Object =
  Object_id :: types_String
  Object_title :: types_Map
  Object_type :: types_String
  Object_optional :: types_Bool

text \<open>
  \<^verbatim>\<open>req.Arguments.Get(ctx, &idData, &titleData)\<close>: every argument is converted into its
  target in turn, the error of each conversion is added to the errors so far, and a
  target whose conversion failed keeps its value.
\<close>

definition FormFieldHeader_Arguments_Get ::
  "FormFieldHeader_Arguments \<Rightarrow> string \<Rightarrow> go_map
     \<Rightarrow> function_FuncError option \<times> string \<times> go_map" where
  "FormFieldHeader_Arguments_Get args idData titleData =
     (case (case reflect_String (Arguments_field_id args) of
              None \<Rightarrow> ([conversion_error], idData)
            | Some s \<Rightarrow> ([], s)) of
        (idDiags, idData') \<Rightarrow>
          (case (case reflect_Map (Arguments_title args) of
                   None \<Rightarrow> ([conversion_error], titleData)
                 | Some m \<Rightarrow> ([], m)) of
             (titleDiags, titleData') \<Rightarrow>
               (ConcatFuncErrors
                  [ConcatFuncErrors [None, FuncErrorFromDiags idDiags],
                   FuncErrorFromDiags titleDiags],
                idData', titleData')))"

text \<open>
  \<^verbatim>\<open>resp.Result.Set(ctx, result)\<close>: a Go string or bool becomes a known value, a nil map
  the null map, any other map the known map of its entries.
\<close>

definition from_go_map :: "go_map \<Rightarrow> types_Map" where
  "from_go_map m =
     (case m of None \<Rightarrow> Null | Some kvs \<Rightarrow> Known (map (\<lambda>kv. (fst kv, Known (snd kv))) kvs))"

definition FormFieldHeader_Result_Set ::
  "FormFieldHeader_result \<Rightarrow> function_FuncError option \<times> FormFieldHeader_Object tfvalue" where
  "FormFieldHeader_Result_Set result =
     (None, Known \<lparr>Object_id = Known (result_Id result),
                   Object_title = from_go_map (result_Title result),
                   Object_type = Known (result_Type result),
                   Object_optional = Known (result_Optional result)\<rparr>)"

definition FormFieldHeaderFunction_Run ::
  "FormFieldHeader_Arguments \<Rightarrow> FormFieldHeader_Object function_RunResponse
     \<Rightarrow> FormFieldHeader_Object function_RunResponse \<times> rems_call list" where
  "FormFieldHeaderFunction_Run req resp =
     (case FormFieldHeader_Arguments_Get req [] None of
        (getErr, idData, titleData) \<Rightarrow>
          (let resp1 = resp\<lparr>Error := ConcatFuncErrors [getErr]\<rparr> in
           if Error resp1 \<noteq> None then (resp1, [])
           else
             (let result = \<lparr>result_Id = idData, result_Title = titleData,
                            result_Type = ''header'', result_Optional = False\<rparr>
              in case FormFieldHeader_Result_Set result of
                   (setErr, v) \<Rightarrow> (resp1\<lparr>Error := ConcatFuncErrors [setErr], Result := v\<rparr>, []))))"

subsection \<open>The function form-field-label\<close>

record FormFieldLabel_Arguments =
  Label_Arguments_title :: types_String

record FormFieldLabel_result =
  label_result_Title :: string
  label_result_Type :: string
  label_result_Optional :: bool

record FormFieldLabel_Object =
  Label_Object_title :: types_String
  Label_Object_type :: types_String
  Label_Object_optional :: types_Bool

definition FormFieldLabel_Arguments_Get ::
  "FormFieldLabel_Arguments \<Rightarrow> string \<Rightarrow> function_FuncError option \<times> string" where
  "FormFieldLabel_Arguments_Get args functionData =
     (case (case reflect_String (Label_Arguments_title args) of
              None \<Rightarrow> ([conversion_error], functionData)
            | Some s \<Rightarrow> ([], s)) of
        (titleDiags, functionData') \<Rightarrow>
          (ConcatFuncErrors [None, FuncErrorFromDiags titleDiags], functionData'))"

definition FormFieldLabel_Result_Set ::
  "FormFieldLabel_result \<Rightarrow> function_FuncError option \<times> FormFieldLabel_Object tfvalue" where
  "FormFieldLabel_Result_Set result =
     (None, Known \<lparr>Label_Object_title = Known (label_result_Title result),
                   Label_Object_type = Known (label_result_Type result),
                   Label_Object_optional = Known (label_result_Optional result)\<rparr>)"

definition FormFieldLabelFunction_Run ::
  "FormFieldLabel_Arguments \<Rightarrow> FormFieldLabel_Object function_RunResponse
     \<Rightarrow> FormFieldLabel_Object function_RunResponse \<times> rems_call list" where
  "FormFieldLabelFunction_Run req resp =
     (case FormFieldLabel_Arguments_Get req [] of
        (getErr, functionData) \<Rightarrow>
          (let resp1 = resp\<lparr>Error := ConcatFuncErrors [getErr]\<rparr> in
           if Error resp1 \<noteq> None then (resp1, [])
           else
             (let result = \<lparr>label_result_Title = functionData, label_result_Type = ''label'',
                            label_result_Optional = False\<rparr>
              in case FormFieldLabel_Result_Set result of
                   (setErr, v) \<Rightarrow> (resp1\<lparr>Error := ConcatFuncErrors [setErr], Result := v\<rparr>, []))))"

section \<open>Sample inputs\<close>

text \<open>
  A client whose server accepts every form and numbers it 7, one whose server rejects
  every form, and one whose server cannot be reached.
\<close>

definition accepting_client :: remsclient_APIClient where
  "accepting_client cmd =
     ExecuteOk \<lparr>Success = True, Response_Id = Some 7, Response_Errors = None\<rparr>
               \<lparr>Status = ''200 OK'', fmt_v = ''&{200 OK}''\<rparr>"

definition rejecting_client :: remsclient_APIClient where
  "rejecting_client cmd =
     ExecuteOk \<lparr>Success = False, Response_Id = None, Response_Errors = Some [''invalid'']\<rparr>
               \<lparr>Status = ''200 OK'', fmt_v = ''&{200 OK}''\<rparr>"

definition unreachable_client :: remsclient_APIClient where
  "unreachable_client cmd = ExecuteError ''connection refused'' None"

text \<open>
  The form of the README with a field between its two headers that has no title; the
  second header has no id.
\<close>

definition sample_fields :: "FormFieldResourceModel list" where
  "sample_fields =
     [\<lparr>Field_Id = Known ''xyz_applicant'', Field_Type = Known ''header'',
       Field_Title = Known [(''en'', Known ''Applicant'')], Field_Info = Null,
       Field_Placeholder = Null, Field_Optional = Known False\<rparr>,
      \<lparr>Field_Id = Known ''xyz_note'', Field_Type = Known ''label'',
       Field_Title = Null, Field_Info = Null,
       Field_Placeholder = Null, Field_Optional = Null\<rparr>,
      \<lparr>Field_Id = Null, Field_Type = Known ''header'',
       Field_Title = Known [(''en'', Known ''Purpose'')], Field_Info = Null,
       Field_Placeholder = Null, Field_Optional = Known False\<rparr>]"

definition sample_plan :: FormResourceModel where
  "sample_plan =
     \<lparr>Form_Id = Unknown, OrganizationId = Known ''Our Organisation'',
      Title = Known ''Access to XYZ data'', Fields = Known (map Known sample_fields)\<rparr>"

text \<open>A form with a title whose only entry is null: the title does not convert.\<close>

definition null_entry_plan :: FormResourceModel where
  "null_entry_plan =
     \<lparr>Form_Id = Unknown, OrganizationId = Known ''Our Organisation'',
      Title = Known ''Access to XYZ data'',
      Fields = Known [Known \<lparr>Field_Id = Known ''xyz_applicant'', Field_Type = Known ''header'',
                             Field_Title = Known [(''en'', Null)], Field_Info = Null,
                             Field_Placeholder = Null, Field_Optional = Known False\<rparr>]\<rparr>"

definition empty_response :: resource_Response where
  "empty_response = \<lparr>State = Null, Diagnostics = []\<rparr>"

text \<open>The command that \<^verbatim>\<open>Create\<close> sends for the sample plan, written out.\<close>

definition sample_command :: CreateFormCommand where
  "sample_command =
     \<lparr>Organization = \<lparr>OrganizationId_value = ''Our Organisation''\<rparr>,
      FormTitle = \<lparr>ns_value = Some ''Access to XYZ data'', ns_isSet = True\<rparr>,
      FormFields =
        Some [\<lparr>FieldTitle = Some [(''en'', ''Applicant'')], FieldType = ''header'',
               FieldOptional = False, FieldId = Some ''xyz_applicant''\<rparr>,
              \<lparr>FieldTitle = Some [(''en'', ''Purpose'')], FieldType = ''header'',
               FieldOptional = False, FieldId = None\<rparr>]\<rparr>"

definition failure_diagnostic :: "string \<Rightarrow> diagnostic" where
  "failure_diagnostic d =
     \<lparr>Severity = SeverityError, Summary = ''Failure to create form'', Detail = d\<rparr>"

section \<open>Notions used in the statements\<close>

text \<open>
  The create call failed: \<^verbatim>\<open>Execute\<close> returned an error, or a result whose
  \<^verbatim>\<open>Success\<close> flag is false.
\<close>

fun create_failed :: "execute_outcome \<Rightarrow> bool" where
  "create_failed (ExecuteError createErr createResponse) = True"
| "create_failed (ExecuteOk createResult createResponse) = (\<not> Success createResult)"

text \<open>A planned field has a title: the title is neither null nor unknown.\<close>

definition title_given :: "FormFieldResourceModel \<Rightarrow> bool" where
  "title_given f = (\<not> IsNull (Field_Title f) \<and> \<not> IsUnknown (Field_Title f))"

text \<open>The field sent for a planned field with a title.\<close>

definition sent_field :: "FormFieldResourceModel \<Rightarrow> NewFieldTemplate" where
  "sent_field f = newField (snd (Map_ElementsAs (Field_Title f) None)) f"

text \<open>
  The title of a planned field converts into a Go map, or is skipped as unknown; a plan
  converts when it is a known object, its list of fields converts and every title does.
\<close>

definition title_converts :: "FormFieldResourceModel \<Rightarrow> bool" where
  "title_converts f = (reflect_Map (Field_Title f) \<noteq> None \<or> IsUnknown (Field_Title f))"

definition plan_converts :: "tfsdk_data \<Rightarrow> bool" where
  "plan_converts raw =
     (case reflect_Struct raw of
        None \<Rightarrow> False
      | Some m \<Rightarrow>
          (case reflect_Slice (Fields m) of
             None \<Rightarrow> False
           | Some fs \<Rightarrow> list_all title_converts fs))"

text \<open>The fields of a plan, and the command that \<^verbatim>\<open>Create\<close> builds from a plan.\<close>

definition planned_fields :: "tfsdk_data \<Rightarrow> FormFieldResourceModel list" where
  "planned_fields raw =
     (case reflect_Struct raw of
        None \<Rightarrow> []
      | Some m \<Rightarrow> (case reflect_Slice (Fields m) of None \<Rightarrow> [] | Some fs \<Rightarrow> fs))"

definition planned_command :: "tfsdk_data \<Rightarrow> CreateFormCommand" where
  "planned_command raw =
     (case reflect_Struct raw of
        None \<Rightarrow> NewCreateFormCommandWithDefaults
      | Some m \<Rightarrow> SetFormFields (formConfig_title m)
                    (map sent_field (filter title_given (planned_fields raw))))"

text \<open>
  The arguments of \<^verbatim>\<open>form_field_header\<close> convert into a Go string and a Go map: the id
  is a known string, and the title is null or a map whose entries are all known.
\<close>

definition header_arguments_convert :: "FormFieldHeader_Arguments \<Rightarrow> bool" where
  "header_arguments_convert a =
     (IsKnown (Arguments_field_id a)
      \<and> (case Arguments_title a of
            Null \<Rightarrow> True
          | Unknown \<Rightarrow> False
          | Known kvs \<Rightarrow> list_all (\<lambda>kv. IsKnown (snd kv)) kvs))"

text \<open>
  The lifecycle of the form resource in the words of the spec, ``a create/read/update/delete
  lifecycle mapped to REMS API calls'': each of the four operations issues a REST call.
\<close>

definition spec_lifecycle_mapped ::
  "FormResource \<Rightarrow> resource_CreateRequest \<Rightarrow> resource_ReadRequest \<Rightarrow> resource_UpdateRequest
     \<Rightarrow> resource_DeleteRequest \<Rightarrow> resource_Response \<Rightarrow> bool" where
  "spec_lifecycle_mapped r createReq readReq updateReq deleteReq resp =
     ((case Create r createReq resp of None \<Rightarrow> False | Some (resp', calls) \<Rightarrow> calls \<noteq> [])
      \<and> snd (Read r readReq resp) \<noteq> []
      \<and> snd (Update r updateReq resp) \<noteq> []
      \<and> snd (Delete r deleteReq resp) \<noteq> [])"

text \<open>The sample plan with another title, as a later change of the form.\<close>

definition changed_plan :: FormResourceModel where
  "changed_plan = sample_plan\<lparr>Form_Id := Known 7, Title := Known ''Access to ABC data''\<rparr>"

section \<open>Diagnostics and the loop over the fields\<close>

lemma set_Append: "set (Append xs ys) = set xs \<union> set ys"
  by (induction ys arbitrary: xs) auto

declare Append.simps(2) [simp del]

lemma HasError_Append [simp]: "HasError (Append xs ys) = (HasError xs \<or> HasError ys)"
  by (auto simp: HasError_def list_ex_iff set_Append)

lemma HasError_Nil [simp]: "\<not> HasError []"
  by (simp add: HasError_def)

lemma HasError_conversion [simp]: "HasError [conversion_error]"
  by (simp add: HasError_def conversion_error_def)

lemma HasError_AddError [simp]: "HasError (AddError ds s d)"
  unfolding AddError_def HasError_Append by (simp add: HasError_def)

lemma AddError_snoc:
  "\<not> HasError ds \<Longrightarrow>
     AddError ds s d = ds @ [\<lparr>Severity = SeverityError, Summary = s, Detail = d\<rparr>]"
  by (auto simp: AddError_def HasError_def list_ex_iff Append.simps)

lemma Diagnostics_Append_Nil [simp]: "Diagnostics_Append resp [] = resp"
  by (simp add: Diagnostics_Append_def Append.simps)

lemma Map_ElementsAs_cases:
  "Map_ElementsAs v t = ([], the (reflect_Map v)) \<and> reflect_Map v \<noteq> None
   \<or> Map_ElementsAs v t = ([conversion_error], t) \<and> reflect_Map v = None"
  by (auto simp: Map_ElementsAs_def split: option.splits)

lemma fields_loop_filter:
  "fields_loop ds fs acc = fields_loop ds (filter title_given fs) acc"
  by (induction fs arbitrary: ds acc) (auto simp: title_given_def Let_def split: prod.splits)

lemma fields_loop_Some:
  "fields_loop ds fs acc = (ds', Some out) \<Longrightarrow>
     out = acc @ map sent_field (filter title_given fs) \<and> ds' = ds"
proof (induction fs arbitrary: ds acc)
  case Nil
  then show ?case by simp
next
  case (Cons f fs)
  show ?case
  proof (cases "title_given f")
    case False
    with Cons show ?thesis by (auto simp: title_given_def)
  next
    case True
    from Map_ElementsAs_cases [of "Field_Title f" None] show ?thesis
    proof
      assume "Map_ElementsAs (Field_Title f) None = ([], the (reflect_Map (Field_Title f)))
                \<and> reflect_Map (Field_Title f) \<noteq> None"
      with Cons.prems True
      have "fields_loop ds fs (acc @ [sent_field f]) = (ds', Some out)"
        by (auto simp: title_given_def sent_field_def split: if_splits)
      from Cons.IH [OF this] True show ?thesis by simp
    next
      assume "Map_ElementsAs (Field_Title f) None = ([conversion_error], None)
                \<and> reflect_Map (Field_Title f) = None"
      with Cons.prems True show ?thesis
        by (auto simp: title_given_def)
    qed
  qed
qed

lemma fields_loop_None:
  "snd (fields_loop ds fs acc) = None \<Longrightarrow> HasError (fst (fields_loop ds fs acc))"
  by (induction fs arbitrary: ds acc) (auto simp: Let_def split: prod.splits if_splits)

lemma fields_loop_converts:
  "\<not> HasError ds \<Longrightarrow>
     (snd (fields_loop ds fs acc) \<noteq> None) = list_all title_converts fs"
proof (induction fs arbitrary: acc)
  case Nil
  then show ?case by simp
next
  case (Cons f fs)
  from Map_ElementsAs_cases [of "Field_Title f" None] Cons show ?case
    by (cases "Field_Title f") (auto simp: title_converts_def Let_def split: prod.splits if_splits)
qed

lemma fields_loop_ok:
  assumes "\<not> HasError ds" and "list_all title_converts fs"
  shows "fields_loop ds fs [] = (ds, Some (map sent_field (filter title_given fs)))"
proof -
  from assms fields_loop_converts [of ds fs "[]"]
  obtain ds' out where eq: "fields_loop ds fs [] = (ds', Some out)"
    by (cases "fields_loop ds fs []") auto
  from fields_loop_Some [OF eq] eq show ?thesis by simp
qed

lemma fields_loop_stop:
  assumes "\<not> HasError ds" and "\<not> list_all title_converts fs"
  shows "\<exists>ds'. fields_loop ds fs [] = (ds', None) \<and> HasError ds'"
proof -
  from assms fields_loop_converts [of ds fs "[]"]
  have n: "snd (fields_loop ds fs []) = None" by simp
  from fields_loop_None [OF n] n show ?thesis
    by (cases "fields_loop ds fs []") auto
qed

section \<open>The two ways through Create\<close>

lemma Create_converts:
  assumes "\<not> HasError (Diagnostics resp)" and "plan_converts (CreateRequest_Plan req)"
  shows "Create r req resp =
           Create_execute r (the (reflect_Struct (CreateRequest_Plan req)))
             (planned_command (CreateRequest_Plan req)) resp"
proof -
  from assms(2) obtain m fs where m: "CreateRequest_Plan req = Known m"
    and fs: "reflect_Slice (Fields m) = Some fs" and conv: "list_all title_converts fs"
    by (cases "CreateRequest_Plan req")
       (auto simp: plan_converts_def split: option.splits)
  from fields_loop_ok [OF assms(1) conv] m fs assms(1) show ?thesis
    by (simp add: Create_def Get_def List_ElementsAs_def planned_command_def planned_fields_def)
qed

lemma Create_stops:
  assumes "HasError (Diagnostics resp) \<or> \<not> plan_converts (CreateRequest_Plan req)"
  shows "\<exists>resp'. Create r req resp = Some (resp', []) \<and> State resp' = State resp
            \<and> HasError (Diagnostics resp')"
proof (cases "HasError (Diagnostics resp)")
  case True
  then show ?thesis
    by (auto simp: Create_def Diagnostics_Append_def split: prod.splits)
next
  case noerr: False
  with assms have nc: "\<not> plan_converts (CreateRequest_Plan req)" by simp
  show ?thesis
  proof (cases "reflect_Struct (CreateRequest_Plan req)")
    case None
    then show ?thesis
      by (auto simp: Create_def Get_def Diagnostics_Append_def)
  next
    case (Some m)
    show ?thesis
    proof (cases "reflect_Slice (Fields m)")
      case None
      with Some show ?thesis
        by (auto simp: Create_def Get_def List_ElementsAs_def Diagnostics_Append_def)
    next
      case fs: (Some fs)
      with Some nc have "\<not> list_all title_converts fs"
        by (simp add: plan_converts_def)
      from fields_loop_stop [OF noerr this] obtain ds'
        where "fields_loop (Diagnostics resp) fs [] = (ds', None)" and "HasError ds'" by blast
      with Some fs noerr show ?thesis
        by (simp add: Create_def Get_def List_ElementsAs_def)
    qed
  qed
qed

lemma Create_execute_None: "(Create_execute r m cmd resp = None) = (client r = None)"
  by (auto simp: Create_execute_def split: option.splits execute_outcome.splits)

lemma Create_execute_calls:
  "Create_execute r m cmd resp = Some (resp', calls) \<Longrightarrow> calls = [ApiFormsCreatePost cmd]"
  by (auto simp: Create_execute_def split: option.splits execute_outcome.splits if_splits)

lemma Create_issued:
  assumes "Create r req resp = Some (resp', calls)" and "c \<in> set calls"
  shows "\<not> HasError (Diagnostics resp) \<and> plan_converts (CreateRequest_Plan req)
         \<and> calls = [ApiFormsCreatePost (planned_command (CreateRequest_Plan req))]
         \<and> Create_execute r (the (reflect_Struct (CreateRequest_Plan req)))
              (planned_command (CreateRequest_Plan req)) resp = Some (resp', calls)"
proof (cases "HasError (Diagnostics resp) \<or> \<not> plan_converts (CreateRequest_Plan req)")
  case True
  from Create_stops [OF True, of r] assms show ?thesis by auto
next
  case False
  then have ok: "\<not> HasError (Diagnostics resp)" "plan_converts (CreateRequest_Plan req)"
    by simp_all
  from Create_converts [OF ok, of r] assms(1)
  have ex: "Create_execute r (the (reflect_Struct (CreateRequest_Plan req)))
              (planned_command (CreateRequest_Plan req)) resp = Some (resp', calls)" by simp
  from Create_execute_calls [OF ex] ok ex show ?thesis by simp
qed

lemma Create_execute_failed:
  assumes "client r = Some api" and "create_failed (api cmd)"
    and "\<not> HasError (Diagnostics resp)"
    and "Create_execute r m cmd resp = Some (resp', calls)"
  shows "State resp' = State resp \<and> butlast (Diagnostics resp') = Diagnostics resp
         \<and> Severity (last (Diagnostics resp')) = SeverityError
         \<and> Summary (last (Diagnostics resp')) = ''Failure to create form''"
  using assms
  by (cases "api cmd") (auto simp: Create_execute_def AddError_snoc split: if_splits)

lemma Create_execute_ok:
  assumes "client r = Some api" and "api cmd = ExecuteOk res h" and "Success res"
    and "Create_execute r m cmd resp = Some (resp', calls)"
  shows "resp' = resp\<lparr>State := Known (m\<lparr>Form_Id := Known (GetId res)\<rparr>)\<rparr>"
  using assms
  by (auto simp: Create_execute_def State_Set_def Set_data_def)

lemma Create_execute_diagnostics:
  assumes "\<not> HasError (Diagnostics resp)"
    and "Create_execute r m cmd resp = Some (resp', calls)"
  shows "Diagnostics resp' = Diagnostics resp
         \<or> butlast (Diagnostics resp') = Diagnostics resp
           \<and> Summary (last (Diagnostics resp')) = ''Failure to create form''"
  using assms
  by (auto simp: Create_execute_def AddError_snoc State_Set_def Set_data_def
        split: option.splits execute_outcome.splits if_splits)

lemma Create_execute_issues:
  "client r \<noteq> None \<Longrightarrow>
     map_option snd (Create_execute r m cmd resp) = Some [ApiFormsCreatePost cmd]"
  by (auto simp: Create_execute_def split: option.splits execute_outcome.splits)

lemma Resources_object_names:
  "map object_name Resources =
     [Some ''CatalogueItem'', Some ''Category'', Some ''Form'', Some ''License'',
      Some ''Resource'', Some ''Workflow'']"
  by (simp add: Resources_def object_name_def)

section \<open>The sample runs\<close>

lemmas sample_defs =
  sample_plan_def sample_fields_def sample_command_def empty_response_def null_entry_plan_def
  accepting_client_def rejecting_client_def unreachable_client_def failure_diagnostic_def

lemmas Create_defs =
  Create_def Create_execute_def Get_def List_ElementsAs_def Map_ElementsAs_def
  Append.simps Diagnostics_Append_def State_Set_def Set_data_def AddError_def HasError_def
  formConfig_title_def newField_def NewNewFieldTemplate_def SetFieldId_def SetFormFields_def
  SetFormTitle_def SetFormTitleNil_def SetOrganization_def NewOrganizationId_def
  NewCreateFormCommandWithDefaults_def GetId_def GetErrors_def fmt_slice_def fmt_response_def
  conversion_error_def

lemma sample_rejected:
  "Create \<lparr>client = Some rejecting_client\<rparr> \<lparr>CreateRequest_Plan = Known sample_plan\<rparr>
     empty_response =
   Some (\<lparr>State = Null, Diagnostics = [failure_diagnostic ''Could not create form: [invalid]'']\<rparr>,
         [ApiFormsCreatePost sample_command])"
  by (simp add: Create_defs sample_defs)

lemma sample_unreachable:
  "Create \<lparr>client = Some unreachable_client\<rparr> \<lparr>CreateRequest_Plan = Known sample_plan\<rparr>
     empty_response =
   Some (\<lparr>State = Null,
          Diagnostics = [failure_diagnostic ''Could not create form: connection refused <nil>'']\<rparr>,
         [ApiFormsCreatePost sample_command])"
  by (simp add: Create_defs sample_defs)

lemma sample_accepted:
  "Create \<lparr>client = Some accepting_client\<rparr> \<lparr>CreateRequest_Plan = Known sample_plan\<rparr>
     empty_response =
   Some (\<lparr>State = Known (sample_plan\<lparr>Form_Id := Known 7\<rparr>), Diagnostics = []\<rparr>,
         [ApiFormsCreatePost sample_command])"
  by (simp add: Create_defs sample_defs)

lemma sample_null_entry:
  "Create \<lparr>client = Some accepting_client\<rparr> \<lparr>CreateRequest_Plan = Known null_entry_plan\<rparr>
     empty_response =
   Some (\<lparr>State = Null, Diagnostics = [conversion_error]\<rparr>, [])"
  by (simp add: Create_defs sample_defs)

lemma sample_plan_converts: "plan_converts (Known sample_plan)"
  by (simp add: plan_converts_def title_converts_def sample_plan_def sample_fields_def)

lemma null_entry_plan_stops: "\<not> plan_converts (Known null_entry_plan)"
  by (simp add: plan_converts_def title_converts_def null_entry_plan_def)

section \<open>The provider functions, case by case\<close>

lemmas Run_defs =
  FormFieldHeaderFunction_Run_def FormFieldHeader_Arguments_Get_def
  FormFieldHeader_Result_Set_def FormFieldLabelFunction_Run_def
  FormFieldLabel_Arguments_Get_def FormFieldLabel_Result_Set_def
  ConcatFuncErrors_def FuncErrorFromDiags_def conversion_error_def from_go_map_def

lemma reflect_Map_from_go_map:
  "reflect_Map v = Some m \<Longrightarrow> from_go_map m = v"
proof (cases v)
  case (Known kvs)
  assume "reflect_Map v = Some m"
  with Known have all: "list_all (\<lambda>kv. IsKnown (snd kv)) kvs"
    and m: "m = Some (map (\<lambda>kv. (fst kv, ValueString (snd kv))) kvs)"
    by (auto split: if_splits)
  have "map (\<lambda>kv. (fst kv, Known (snd kv))) (map (\<lambda>kv. (fst kv, ValueString (snd kv))) kvs) = kvs"
    using all
  proof (induction kvs)
    case Nil
    then show ?case by simp
  next
    case (Cons kv kvs)
    then show ?case by (cases kv, cases "snd kv") auto
  qed
  with Known m show ?thesis by (simp add: from_go_map_def)
qed (auto simp: from_go_map_def)

lemma reflect_Map_of_go_map:
  "reflect_Map (Known (map (\<lambda>kv. (fst kv, Known (snd kv))) kvs)) = Some (Some kvs)"
  by (induction kvs) (auto split: if_splits)

lemma header_arguments_convert_iff:
  "header_arguments_convert a =
     (reflect_String (Arguments_field_id a) \<noteq> None \<and> reflect_Map (Arguments_title a) \<noteq> None)"
  by (cases "Arguments_field_id a"; cases "Arguments_title a")
     (simp_all add: header_arguments_convert_def)

lemma header_Run_cases:
  "FormFieldHeaderFunction_Run a resp =
     (case (reflect_String (Arguments_field_id a), reflect_Map (Arguments_title a)) of
        (Some s, Some m) \<Rightarrow>
          (\<lparr>Error = None,
            Result = Known \<lparr>Object_id = Known s, Object_title = from_go_map m,
                            Object_type = Known ''header'', Object_optional = Known False\<rparr>\<rparr>, [])
      | (Some s, None) \<Rightarrow> (resp\<lparr>Error := FuncErrorFromDiags [conversion_error]\<rparr>, [])
      | (None, Some m) \<Rightarrow> (resp\<lparr>Error := FuncErrorFromDiags [conversion_error]\<rparr>, [])
      | (None, None) \<Rightarrow>
          (resp\<lparr>Error := FuncErrorFromDiags [conversion_error, conversion_error]\<rparr>, []))"
  by (cases resp) (simp add: Run_defs split: option.splits)

lemma label_Run_cases:
  "FormFieldLabelFunction_Run a resp =
     (case reflect_String (Label_Arguments_title a) of
        Some s \<Rightarrow>
          (\<lparr>Error = None,
            Result = Known \<lparr>Label_Object_title = Known s, Label_Object_type = Known ''label'',
                            Label_Object_optional = Known False\<rparr>\<rparr>, [])
      | None \<Rightarrow> (resp\<lparr>Error := FuncErrorFromDiags [conversion_error]\<rparr>, []))"
  by (cases resp) (simp add: Run_defs split: option.splits)

lemma FuncErrorFromDiags_conversion [simp]:
  "FuncErrorFromDiags [conversion_error] =
     Some ''Value Conversion Error: unhandled null or unknown value''"
  "FuncErrorFromDiags [conversion_error, conversion_error] =
     Some (''Value Conversion Error: unhandled null or unknown value'' @ [CHR 0x0A]
             @ ''Value Conversion Error: unhandled null or unknown value'')"
  by (simp_all add: FuncErrorFromDiags_def ConcatFuncErrors_def conversion_error_def)

section \<open>The lifecycle of the form resource\<close>

lemma Read_no_call: "snd (Read r req resp) = []"
  by (simp add: Read_def Let_def split: prod.splits)

lemma Update_no_call: "snd (Update r req resp) = []"
  by (simp add: Update_def Let_def split: prod.splits)

lemma Delete_no_call: "snd (Delete r req resp) = []"
  by (simp add: Delete_def Let_def split: prod.splits)

section \<open>The claims\<close>

text \<open>
  Claim C1. Whatever the plan, when the create call that \<^verbatim>\<open>FormResource.Create\<close> issued
  returned an error, or a result whose \<^verbatim>\<open>Success\<close> flag is false, \<^verbatim>\<open>Create\<close> has
  added one error diagnostic (``Failure to create form'') and has left the state as it
  was; that one call is the only one, so nothing is retried.
\<close>

theorem Create_failure_keeps_state:
  assumes "client r = Some api"
    and "Create r req resp = Some (resp', calls)"
    and "ApiFormsCreatePost cmd \<in> set calls"
    and "create_failed (api cmd)"
  shows "State resp' = State resp
         \<and> butlast (Diagnostics resp') = Diagnostics resp
         \<and> Severity (last (Diagnostics resp')) = SeverityError
         \<and> Summary (last (Diagnostics resp')) = ''Failure to create form''
         \<and> HasError (Diagnostics resp')
         \<and> calls = [ApiFormsCreatePost cmd]"
proof -
  from Create_issued [OF assms(2,3)]
  have calls: "calls = [ApiFormsCreatePost (planned_command (CreateRequest_Plan req))]"
    and ex: "Create_execute r (the (reflect_Struct (CreateRequest_Plan req)))
               (planned_command (CreateRequest_Plan req)) resp = Some (resp', calls)"
    and ok: "\<not> HasError (Diagnostics resp)"
    by simp_all
  from calls assms(3) have cmd: "planned_command (CreateRequest_Plan req) = cmd" by simp
  from Create_execute_failed [OF assms(1) assms(4) ok ex [unfolded cmd]]
  have f: "State resp' = State resp" "butlast (Diagnostics resp') = Diagnostics resp"
    "Severity (last (Diagnostics resp')) = SeverityError"
    "Summary (last (Diagnostics resp')) = ''Failure to create form''" by simp_all
  from assms(1,4) ex [unfolded cmd] have "HasError (Diagnostics resp')"
    by (cases "api cmd") (auto simp: Create_execute_def split: if_splits)
  with f calls cmd show ?thesis by simp
qed

theorem Create_failure_keeps_state_witness:
  "Create \<lparr>client = Some rejecting_client\<rparr> \<lparr>CreateRequest_Plan = Known sample_plan\<rparr>
     empty_response =
   Some (\<lparr>State = Null, Diagnostics = [failure_diagnostic ''Could not create form: [invalid]'']\<rparr>,
         [ApiFormsCreatePost sample_command])
   \<and> create_failed (rejecting_client sample_command)
   \<and> State \<lparr>State = Null, Diagnostics = [failure_diagnostic ''Could not create form: [invalid]'']\<rparr>
       = State empty_response
   \<and> HasError [failure_diagnostic ''Could not create form: [invalid]'']"
proof -
  have c: "client \<lparr>client = Some rejecting_client\<rparr> = Some rejecting_client" by simp
  have m: "ApiFormsCreatePost sample_command \<in> set [ApiFormsCreatePost sample_command]" by simp
  have f: "create_failed (rejecting_client sample_command)"
    by (simp add: rejecting_client_def)
  from Create_failure_keeps_state [OF c sample_rejected m f] sample_rejected f
  show ?thesis by simp
qed

text \<open>
  Claim C2, as stated, fails: \<^verbatim>\<open>FormResource.Read\<close>, \<^verbatim>\<open>Update\<close> and \<^verbatim>\<open>Delete\<close>
  issue no call on the sample form.
\<close>

theorem Read_Update_Delete_call_counterexample:
  "snd (Read \<lparr>client = Some accepting_client\<rparr> \<lparr>ReadRequest_State = Known sample_plan\<rparr>
          \<lparr>State = Known sample_plan, Diagnostics = []\<rparr>) = []
   \<and> snd (Update \<lparr>client = Some accepting_client\<rparr> \<lparr>UpdateRequest_Plan = Known sample_plan\<rparr>
          \<lparr>State = Known sample_plan, Diagnostics = []\<rparr>) = []
   \<and> snd (Delete \<lparr>client = Some accepting_client\<rparr> \<lparr>DeleteRequest_State = Known sample_plan\<rparr>
          \<lparr>State = Known sample_plan, Diagnostics = []\<rparr>) = []"
  by (simp add: Read_def Update_def Delete_def Get_def Diagnostics_Append_def HasError_def
        State_Set_def Set_data_def Append.simps)

text \<open>
  Claim C2, amended. Of the lifecycle operations of the form resource only create is
  mapped to a REMS API call. \<^verbatim>\<open>FormResource.Read\<close>, \<^verbatim>\<open>Update\<close> and \<^verbatim>\<open>Delete\<close> issue
  no call on any input: without an error diagnostic, \<^verbatim>\<open>Read\<close> writes the prior state
  back and \<^verbatim>\<open>Update\<close> writes the plan into the state, and \<^verbatim>\<open>Delete\<close> leaves the state
  of its response as it was.
\<close>

theorem Read_Update_Delete_no_call:
  "snd (Read r readReq resp) = []
   \<and> snd (Update r updateReq resp) = []
   \<and> snd (Delete r deleteReq resp) = []
   \<and> State (fst (Delete r deleteReq resp)) = State resp
   \<and> (\<not> HasError (Diagnostics resp) \<longrightarrow>
        (ReadRequest_State readReq = Known data \<longrightarrow>
           fst (Read r readReq resp) = resp\<lparr>State := Known data\<rparr>)
        \<and> (UpdateRequest_Plan updateReq = Known data \<longrightarrow>
           fst (Update r updateReq resp) = resp\<lparr>State := Known data\<rparr>))"
  by (auto simp: Read_def Update_def Delete_def Get_def Let_def State_Set_def Set_data_def
        Diagnostics_Append_def Append.simps split: prod.splits option.splits)

theorem Read_Update_Delete_no_call_witness:
  "\<not> HasError (Diagnostics empty_response)
   \<and> fst (Read \<lparr>client = Some accepting_client\<rparr> \<lparr>ReadRequest_State = Known sample_plan\<rparr>
           empty_response) = \<lparr>State = Known sample_plan, Diagnostics = []\<rparr>
   \<and> fst (Update \<lparr>client = Some accepting_client\<rparr> \<lparr>UpdateRequest_Plan = Known sample_plan\<rparr>
           empty_response) = \<lparr>State = Known sample_plan, Diagnostics = []\<rparr>"
proof -
  have h: "\<not> HasError (Diagnostics empty_response)"
    by (simp add: empty_response_def)
  from Read_Update_Delete_no_call
    [of "\<lparr>client = Some accepting_client\<rparr>" "\<lparr>ReadRequest_State = Known sample_plan\<rparr>"
        empty_response "\<lparr>UpdateRequest_Plan = Known sample_plan\<rparr>" _ sample_plan] h
  show ?thesis by (simp add: empty_response_def)
qed

text \<open>
  Claim C3. When \<^verbatim>\<open>FormResource.Create\<close> succeeds on a plan (the call is issued and
  returns a result with \<^verbatim>\<open>Success\<close> true), the state written is the plan model with
  only the id replaced by the id of the result: the organization id, the title and the
  fields are those of the plan, and no diagnostic is added.
\<close>

theorem Create_success_state:
  assumes "client r = Some api"
    and "Create r req resp = Some (resp', calls)"
    and "ApiFormsCreatePost cmd \<in> set calls"
    and "api cmd = ExecuteOk createResult createResponse"
    and "Success createResult"
    and "CreateRequest_Plan req = Known plan"
  shows "State resp' =
           Known \<lparr>Form_Id = Known (GetId createResult), OrganizationId = OrganizationId plan,
                  Title = Title plan, Fields = Fields plan\<rparr>
         \<and> State resp' = Known (plan\<lparr>Form_Id := Known (GetId createResult)\<rparr>)
         \<and> Diagnostics resp' = Diagnostics resp
         \<and> \<not> HasError (Diagnostics resp')"
proof -
  from Create_issued [OF assms(2,3)]
  have calls: "calls = [ApiFormsCreatePost (planned_command (CreateRequest_Plan req))]"
    and ex: "Create_execute r (the (reflect_Struct (CreateRequest_Plan req)))
               (planned_command (CreateRequest_Plan req)) resp = Some (resp', calls)"
    and ok: "\<not> HasError (Diagnostics resp)"
    by simp_all
  from calls assms(3) have cmd: "planned_command (CreateRequest_Plan req) = cmd" by simp
  from Create_execute_ok [OF assms(1) assms(4) assms(5) ex [unfolded cmd]] assms(6)
  have "resp' = resp\<lparr>State := Known (plan\<lparr>Form_Id := Known (GetId createResult)\<rparr>)\<rparr>"
    by simp
  with ok show ?thesis by (cases plan) simp
qed

theorem Create_success_state_witness:
  "Create \<lparr>client = Some accepting_client\<rparr> \<lparr>CreateRequest_Plan = Known sample_plan\<rparr>
     empty_response =
   Some (\<lparr>State = Known (sample_plan\<lparr>Form_Id := Known 7\<rparr>), Diagnostics = []\<rparr>,
         [ApiFormsCreatePost sample_command])
   \<and> Success \<lparr>Success = True, Response_Id = Some 7, Response_Errors = None\<rparr>
   \<and> Known (sample_plan\<lparr>Form_Id := Known 7\<rparr>) =
       Known \<lparr>Form_Id = Known (GetId \<lparr>Success = True, Response_Id = Some 7,
                                      Response_Errors = None\<rparr>),
              OrganizationId = OrganizationId sample_plan,
              Title = Title sample_plan, Fields = Fields sample_plan\<rparr>"
proof -
  have c: "client \<lparr>client = Some accepting_client\<rparr> = Some accepting_client" by simp
  have m: "ApiFormsCreatePost sample_command \<in> set [ApiFormsCreatePost sample_command]" by simp
  have a: "accepting_client sample_command =
             ExecuteOk \<lparr>Success = True, Response_Id = Some 7, Response_Errors = None\<rparr>
               \<lparr>Status = ''200 OK'', fmt_v = ''&{200 OK}''\<rparr>"
    by (simp add: accepting_client_def)
  have s: "Success \<lparr>Success = True, Response_Id = Some 7, Response_Errors = None\<rparr>" by simp
  have p: "CreateRequest_Plan \<lparr>CreateRequest_Plan = Known sample_plan\<rparr> = Known sample_plan"
    by simp
  from Create_success_state [OF c sample_accepted m a s p] sample_accepted
  show ?thesis by simp
qed



text \<open>
  Claim C5, as stated, fails: \<^verbatim>\<open>NewFormResource\<close> is one of the constructors that
  \<^verbatim>\<open>Resources\<close> returns, but the form it constructs is not managed through its
  lifecycle. For the sample form with a configured client, the lifecycle is not mapped to
  REMS API calls: the update to a changed plan and the deletion issue no call.
\<close>

theorem Resources_form_lifecycle_counterexample:
  "''NewFormResource'' \<in> set Resources
   \<and> \<not> spec_lifecycle_mapped
         (fst (Configure NewFormResource (APIClientData accepting_client) []))
         \<lparr>CreateRequest_Plan = Known sample_plan\<rparr>
         \<lparr>ReadRequest_State = Known (sample_plan\<lparr>Form_Id := Known 7\<rparr>)\<rparr>
         \<lparr>UpdateRequest_Plan = Known changed_plan\<rparr>
         \<lparr>DeleteRequest_State = Known changed_plan\<rparr>
         empty_response
   \<and> snd (Update (fst (Configure NewFormResource (APIClientData accepting_client) []))
           \<lparr>UpdateRequest_Plan = Known changed_plan\<rparr> empty_response) = []
   \<and> snd (Delete (fst (Configure NewFormResource (APIClientData accepting_client) []))
           \<lparr>DeleteRequest_State = Known changed_plan\<rparr> empty_response) = []"
  by (simp add: Resources_def spec_lifecycle_mapped_def Read_no_call Update_no_call
        Delete_no_call)

text \<open>
  Claim C5, amended. \<^verbatim>\<open>Resources\<close> returns exactly six constructors, all different,
  named after the six content objects of the spec, one each: catalogue item, category,
  form, license, resource and workflow. Of the resources they construct only the form
  resource is among the sources. It is registered under the type name
  \<^verbatim>\<open>remscontent_form\<close>, and with a configured client a form whose plan converts is
  created in REMS by the one call \<^verbatim>\<open>ApiFormsCreatePost\<close>; but its \<^verbatim>\<open>Read\<close>,
  \<^verbatim>\<open>Update\<close> and \<^verbatim>\<open>Delete\<close> issue no REMS call, so on no input is its whole lifecycle
  mapped to REMS API calls.
\<close>

theorem Resources_named_after_content_objects:
  "length Resources = 6
   \<and> distinct Resources
   \<and> distinct (map object_name Resources)
   \<and> set (map object_name Resources) = set (map Some spec_content_objects)
   \<and> object_name ''NewFormResource'' = Some ''Form''
   \<and> FormResource_TypeName RemsContentProvider_TypeName = ''remscontent_form''
   \<and> \<not> spec_lifecycle_mapped r createReq readReq updateReq deleteReq resp
   \<and> snd (Read r readReq resp) = []
   \<and> snd (Update r updateReq resp) = []
   \<and> snd (Delete r deleteReq resp) = []
   \<and> (client r \<noteq> None \<and> \<not> HasError (Diagnostics resp)
        \<and> plan_converts (CreateRequest_Plan createReq) \<longrightarrow>
        map_option snd (Create r createReq resp) =
          Some [ApiFormsCreatePost (planned_command (CreateRequest_Plan createReq))])"
proof -
  have names: "length Resources = 6 \<and> distinct Resources
     \<and> distinct (map object_name Resources)
     \<and> set (map object_name Resources) = set (map Some spec_content_objects)
     \<and> object_name ''NewFormResource'' = Some ''Form''"
    using Resources_object_names
    by (auto simp: Resources_def spec_content_objects_def object_name_def)
  have type_name: "FormResource_TypeName RemsContentProvider_TypeName = ''remscontent_form''"
    by (simp add: FormResource_TypeName_def RemsContentProvider_TypeName_def)
  have lifecycle: "\<not> spec_lifecycle_mapped r createReq readReq updateReq deleteReq resp"
    by (simp add: spec_lifecycle_mapped_def Read_no_call)
  have create: "map_option snd (Create r createReq resp) =
          Some [ApiFormsCreatePost (planned_command (CreateRequest_Plan createReq))]"
    if "client r \<noteq> None" "\<not> HasError (Diagnostics resp)"
      "plan_converts (CreateRequest_Plan createReq)"
    using that Create_converts [OF that(2,3), of r] Create_execute_issues by simp
  from names type_name lifecycle create show ?thesis
    by (simp add: Read_no_call Update_no_call Delete_no_call)
qed

theorem Resources_named_after_content_objects_witness:
  "client (fst (Configure NewFormResource (APIClientData accepting_client) [])) \<noteq> None
   \<and> \<not> HasError (Diagnostics empty_response)
   \<and> plan_converts (Known sample_plan)
   \<and> map_option snd
        (Create (fst (Configure NewFormResource (APIClientData accepting_client) []))
           \<lparr>CreateRequest_Plan = Known sample_plan\<rparr> empty_response) =
       Some [ApiFormsCreatePost sample_command]
   \<and> planned_command (Known sample_plan) = sample_command"
proof -
  have c: "fst (Configure NewFormResource (APIClientData accepting_client) []) =
             \<lparr>client = Some accepting_client\<rparr>"
    by (simp add: Configure_def NewFormResource_def)
  have h: "\<not> HasError (Diagnostics empty_response)"
    by (simp add: empty_response_def)
  from Resources_named_after_content_objects
    [of "\<lparr>client = Some accepting_client\<rparr>" "\<lparr>CreateRequest_Plan = Known sample_plan\<rparr>"
        _ _ _ empty_response]
    c h sample_plan_converts sample_accepted
  show ?thesis by simp
qed

text \<open>
  Claim C6, as stated, fails: for the plan whose field has a title with a null entry,
  \<^verbatim>\<open>FormResource.Create\<close> returns with an error diagnostic and has issued no call.
\<close>

theorem Create_no_call_counterexample:
  "map_option snd
     (Create \<lparr>client = Some accepting_client\<rparr> \<lparr>CreateRequest_Plan = Known null_entry_plan\<rparr>
        empty_response) = Some []"
  by (simp add: sample_null_entry)

text \<open>
  Claim C6, amended. One invocation of \<^verbatim>\<open>FormResource.Create\<close> with a configured client
  returns, and it issues at most one REST call, whatever the number of fields: exactly
  one, \<^verbatim>\<open>ApiFormsCreatePost\<close> with the command built from the plan, when the response
  it was handed has no error diagnostic and the plan, its list of fields and every title
  convert; none otherwise, and then it returns with an error diagnostic and the state
  untouched.
\<close>

theorem Create_calls_at_most_once:
  "(client r \<noteq> None \<longrightarrow> Create r req resp \<noteq> None)
   \<and> (Create r req resp = Some (resp', calls) \<longrightarrow>
        length calls \<le> 1
        \<and> (length calls = 1) =
            (\<not> HasError (Diagnostics resp) \<and> plan_converts (CreateRequest_Plan req))
        \<and> (calls = [] \<longrightarrow> HasError (Diagnostics resp') \<and> State resp' = State resp)
        \<and> (calls \<noteq> [] \<longrightarrow>
             calls = [ApiFormsCreatePost (planned_command (CreateRequest_Plan req))]))"
proof (cases "HasError (Diagnostics resp) \<or> \<not> plan_converts (CreateRequest_Plan req)")
  case True
  from Create_stops [OF True, of r] True show ?thesis by auto
next
  case False
  then have ok: "\<not> HasError (Diagnostics resp)" "plan_converts (CreateRequest_Plan req)"
    by simp_all
  note eq = Create_converts [OF ok, of r]
  have total: "client r \<noteq> None \<longrightarrow> Create r req resp \<noteq> None"
    by (simp add: eq Create_execute_None)
  have "Create r req resp = Some (resp', calls) \<longrightarrow>
          calls = [ApiFormsCreatePost (planned_command (CreateRequest_Plan req))]"
    using Create_execute_calls by (simp add: eq)
  with total ok show ?thesis by auto
qed

theorem Create_calls_at_most_once_witness:
  "Create \<lparr>client = Some accepting_client\<rparr> \<lparr>CreateRequest_Plan = Known sample_plan\<rparr>
     empty_response =
   Some (\<lparr>State = Known (sample_plan\<lparr>Form_Id := Known 7\<rparr>), Diagnostics = []\<rparr>,
         [ApiFormsCreatePost sample_command])
   \<and> \<not> HasError (Diagnostics empty_response)
   \<and> plan_converts (Known sample_plan)
   \<and> planned_command (Known sample_plan) = sample_command
   \<and> Create \<lparr>client = Some accepting_client\<rparr> \<lparr>CreateRequest_Plan = Known null_entry_plan\<rparr>
       empty_response =
     Some (\<lparr>State = Null, Diagnostics = [conversion_error]\<rparr>, [])
   \<and> \<not> plan_converts (Known null_entry_plan)
   \<and> HasError [conversion_error]"
  using Create_calls_at_most_once
    [of "\<lparr>client = Some accepting_client\<rparr>" "\<lparr>CreateRequest_Plan = Known sample_plan\<rparr>"
        empty_response "\<lparr>State = Known (sample_plan\<lparr>Form_Id := Known 7\<rparr>), Diagnostics = []\<rparr>"
        "[ApiFormsCreatePost sample_command]"]
    Create_calls_at_most_once
    [of "\<lparr>client = Some accepting_client\<rparr>" "\<lparr>CreateRequest_Plan = Known null_entry_plan\<rparr>"
        empty_response "\<lparr>State = Null, Diagnostics = [conversion_error]\<rparr>" "[]"]
    sample_accepted sample_null_entry
  by simp

text \<open>
  Claim C7. In the command that \<^verbatim>\<open>FormResource.Create\<close> sends, the form title is set
  explicitly to nil when the title of the plan is null, and otherwise to the string value
  of the title of the plan.
\<close>

theorem Create_title_mapping:
  assumes "Create r req resp = Some (resp', calls)"
    and "ApiFormsCreatePost cmd \<in> set calls"
    and "CreateRequest_Plan req = Known plan"
  shows "FormTitle cmd =
           (if IsNull (Title plan) then \<lparr>ns_value = None, ns_isSet = True\<rparr>
            else \<lparr>ns_value = Some (ValueString (Title plan)), ns_isSet = True\<rparr>)"
proof -
  from Create_issued [OF assms(1,2)] assms(2)
  have "cmd = planned_command (CreateRequest_Plan req)" by simp
  with assms(3) show ?thesis
    by (simp add: planned_command_def formConfig_title_def SetFormFields_def SetFormTitle_def
          SetFormTitleNil_def SetOrganization_def NewCreateFormCommandWithDefaults_def)
qed

theorem Create_title_mapping_witness:
  "Create \<lparr>client = Some accepting_client\<rparr> \<lparr>CreateRequest_Plan = Known sample_plan\<rparr>
     empty_response =
   Some (\<lparr>State = Known (sample_plan\<lparr>Form_Id := Known 7\<rparr>), Diagnostics = []\<rparr>,
         [ApiFormsCreatePost sample_command])
   \<and> FormTitle sample_command = \<lparr>ns_value = Some ''Access to XYZ data'', ns_isSet = True\<rparr>"
proof -
  have m: "ApiFormsCreatePost sample_command \<in> set [ApiFormsCreatePost sample_command]" by simp
  have p: "CreateRequest_Plan \<lparr>CreateRequest_Plan = Known sample_plan\<rparr> = Known sample_plan"
    by simp
  from Create_title_mapping [OF sample_accepted m p] sample_accepted
  show ?thesis by (simp add: sample_plan_def)
qed

text \<open>
  Claim C8. The fields in the command that \<^verbatim>\<open>FormResource.Create\<close> sends are exactly
  the planned fields whose title is neither null nor unknown, in the order of the plan.
  A planned field without such a title is dropped silently: the loop over the fields
  gives the same diagnostics and the same fields with it as without it, and on the way
  to the call no diagnostic is added at all (after the call, at most the one of its
  failure).
\<close>

theorem Create_sends_titled_fields:
  "(Create r req resp = Some (resp', calls) \<longrightarrow> ApiFormsCreatePost cmd \<in> set calls \<longrightarrow>
      CreateRequest_Plan req = Known plan \<longrightarrow> reflect_Slice (Fields plan) = Some fs \<longrightarrow>
        FormFields cmd = Some (map sent_field (filter title_given fs))
        \<and> (Diagnostics resp' = Diagnostics resp
            \<or> butlast (Diagnostics resp') = Diagnostics resp
              \<and> Summary (last (Diagnostics resp')) = ''Failure to create form''))
   \<and> fields_loop diags modelFields newFields =
       fields_loop diags (filter title_given modelFields) newFields"
proof -
  have "FormFields cmd = Some (map sent_field (filter title_given fs))
        \<and> (Diagnostics resp' = Diagnostics resp
            \<or> butlast (Diagnostics resp') = Diagnostics resp
              \<and> Summary (last (Diagnostics resp')) = ''Failure to create form'')"
    if a: "Create r req resp = Some (resp', calls)" "ApiFormsCreatePost cmd \<in> set calls"
      "CreateRequest_Plan req = Known plan" "reflect_Slice (Fields plan) = Some fs"
  proof -
    from Create_issued [OF a(1,2)] a(2)
    have cmd: "cmd = planned_command (CreateRequest_Plan req)"
      and ok: "\<not> HasError (Diagnostics resp)"
      and ex: "Create_execute r (the (reflect_Struct (CreateRequest_Plan req)))
               (planned_command (CreateRequest_Plan req)) resp = Some (resp', calls)"
      by simp_all
    from cmd a(3,4) have 1: "FormFields cmd = Some (map sent_field (filter title_given fs))"
      by (simp add: planned_command_def planned_fields_def SetFormFields_def)
    from Create_execute_diagnostics [OF ok ex] 1 show ?thesis by simp
  qed
  with fields_loop_filter show ?thesis by blast
qed

theorem Create_sends_titled_fields_witness:
  "Create \<lparr>client = Some accepting_client\<rparr> \<lparr>CreateRequest_Plan = Known sample_plan\<rparr>
     empty_response =
   Some (\<lparr>State = Known (sample_plan\<lparr>Form_Id := Known 7\<rparr>), Diagnostics = []\<rparr>,
         [ApiFormsCreatePost sample_command])
   \<and> reflect_Slice (Fields sample_plan) = Some sample_fields
   \<and> FormFields sample_command = Some (map sent_field (filter title_given sample_fields))
   \<and> length sample_fields = 3
   \<and> length (filter title_given sample_fields) = 2"
proof -
  have m: "ApiFormsCreatePost sample_command \<in> set [ApiFormsCreatePost sample_command]" by simp
  have p: "CreateRequest_Plan \<lparr>CreateRequest_Plan = Known sample_plan\<rparr> = Known sample_plan"
    by simp
  have s: "reflect_Slice (Fields sample_plan) = Some sample_fields"
    by (simp add: sample_plan_def sample_fields_def)
  have l: "length sample_fields = 3 \<and> length (filter title_given sample_fields) = 2"
    by (simp add: sample_fields_def title_given_def)
  from Create_sends_titled_fields
    [of "\<lparr>client = Some accepting_client\<rparr>" "\<lparr>CreateRequest_Plan = Known sample_plan\<rparr>"
        empty_response "\<lparr>State = Known (sample_plan\<lparr>Form_Id := Known 7\<rparr>), Diagnostics = []\<rparr>"
        "[ApiFormsCreatePost sample_command]" sample_command sample_plan sample_fields]
    sample_accepted m p s l
  show ?thesis by simp
qed

text \<open>
  Claim C9, as stated, fails: for the title with the one entry \<open>en\<close> that is null,
  \<^verbatim>\<open>Run\<close> of \<^verbatim>\<open>form_field_header\<close> reports an error and returns no object (the
  result stays as it was handed in).
\<close>

theorem form_field_header_null_entry_counterexample:
  "Error (fst (FormFieldHeaderFunction_Run
                 \<lparr>Arguments_field_id = Known ''xyz_applicant'',
                  Arguments_title = Known [(''en'', Null)]\<rparr>
                 \<lparr>Error = None, Result = Unknown\<rparr>)) \<noteq> None
   \<and> Result (fst (FormFieldHeaderFunction_Run
                 \<lparr>Arguments_field_id = Known ''xyz_applicant'',
                  Arguments_title = Known [(''en'', Null)]\<rparr>
                 \<lparr>Error = None, Result = Unknown\<rparr>)) = Unknown"
  by (simp add: header_Run_cases)

text \<open>
  Claim C9, amended. For every \<open>field_id\<close> that is a known string and every \<open>title\<close>
  that is null or a map whose entries are all known strings (so for every Go string and
  every Go map of strings), \<^verbatim>\<open>Run\<close> of \<^verbatim>\<open>form_field_header\<close> returns, without error,
  the object whose id is \<open>field_id\<close>, whose title is \<open>title\<close>, whose type is the
  string ``header'' and whose optional attribute is false; no argument sets optional to
  another value. For all other arguments (an id that is null or unknown, a title that is
  unknown or has a null or unknown entry) \<^verbatim>\<open>Run\<close> reports an error and leaves the
  result as it was. \<^verbatim>\<open>Run\<close> reports no error exactly in the first case.
\<close>

theorem form_field_header_result:
  "FormFieldHeaderFunction_Run
     \<lparr>Arguments_field_id = Known field_id,
      Arguments_title = Known (map (\<lambda>kv. (fst kv, Known (snd kv))) title)\<rparr> resp =
     (\<lparr>Error = None,
       Result = Known \<lparr>Object_id = Known field_id,
                       Object_title = Known (map (\<lambda>kv. (fst kv, Known (snd kv))) title),
                       Object_type = Known ''header'',
                       Object_optional = Known False\<rparr>\<rparr>, [])
   \<and> (header_arguments_convert a \<longrightarrow>
        FormFieldHeaderFunction_Run a resp =
          (\<lparr>Error = None,
            Result = Known \<lparr>Object_id = Arguments_field_id a, Object_title = Arguments_title a,
                            Object_type = Known ''header'', Object_optional = Known False\<rparr>\<rparr>,
           []))
   \<and> (\<not> header_arguments_convert a \<longrightarrow>
        Error (fst (FormFieldHeaderFunction_Run a resp)) \<noteq> None
        \<and> Result (fst (FormFieldHeaderFunction_Run a resp)) = Result resp
        \<and> snd (FormFieldHeaderFunction_Run a resp) = [])
   \<and> (Error (fst (FormFieldHeaderFunction_Run a resp)) = None) = header_arguments_convert a"
proof -
  have 1: "FormFieldHeaderFunction_Run
     \<lparr>Arguments_field_id = Known field_id,
      Arguments_title = Known (map (\<lambda>kv. (fst kv, Known (snd kv))) title)\<rparr> resp =
     (\<lparr>Error = None,
       Result = Known \<lparr>Object_id = Known field_id,
                       Object_title = Known (map (\<lambda>kv. (fst kv, Known (snd kv))) title),
                       Object_type = Known ''header'',
                       Object_optional = Known False\<rparr>\<rparr>, [])"
    by (simp add: header_Run_cases reflect_Map_of_go_map from_go_map_def
          del: reflect_Map.simps)
  have 2: "FormFieldHeaderFunction_Run a resp =
          (\<lparr>Error = None,
            Result = Known \<lparr>Object_id = Arguments_field_id a, Object_title = Arguments_title a,
                            Object_type = Known ''header'', Object_optional = Known False\<rparr>\<rparr>,
           [])"
    if "header_arguments_convert a"
  proof -
    from that obtain s m where s: "reflect_String (Arguments_field_id a) = Some s"
      and m: "reflect_Map (Arguments_title a) = Some m"
      by (auto simp: header_arguments_convert_iff)
    from s have "Arguments_field_id a = Known s"
      by (cases "Arguments_field_id a") simp_all
    with s m reflect_Map_from_go_map [OF m] show ?thesis
      by (simp add: header_Run_cases)
  qed
  have 3: "Error (fst (FormFieldHeaderFunction_Run a resp)) \<noteq> None
        \<and> Result (fst (FormFieldHeaderFunction_Run a resp)) = Result resp
        \<and> snd (FormFieldHeaderFunction_Run a resp) = []"
    if "\<not> header_arguments_convert a"
    using that
    by (auto simp: header_arguments_convert_iff header_Run_cases split: option.splits)
  from 2 3 have 4:
    "(Error (fst (FormFieldHeaderFunction_Run a resp)) = None) = header_arguments_convert a"
    by (cases "header_arguments_convert a") simp_all
  from 1 2 3 4 show ?thesis by blast
qed

theorem form_field_header_result_witness:
  "header_arguments_convert
     \<lparr>Arguments_field_id = Known ''xyz_applicant'',
      Arguments_title = Known [(''en'', Known ''Applicant'')]\<rparr>
   \<and> FormFieldHeaderFunction_Run
       \<lparr>Arguments_field_id = Known ''xyz_applicant'',
        Arguments_title = Known [(''en'', Known ''Applicant'')]\<rparr>
       \<lparr>Error = None, Result = Unknown\<rparr> =
     (\<lparr>Error = None,
       Result = Known \<lparr>Object_id = Known ''xyz_applicant'',
                       Object_title = Known [(''en'', Known ''Applicant'')],
                       Object_type = Known ''header'', Object_optional = Known False\<rparr>\<rparr>, [])
   \<and> \<not> header_arguments_convert
         \<lparr>Arguments_field_id = Known ''xyz_applicant'',
          Arguments_title = Known [(''en'', Null)]\<rparr>
   \<and> Error (fst (FormFieldHeaderFunction_Run
                   \<lparr>Arguments_field_id = Known ''xyz_applicant'',
                    Arguments_title = Known [(''en'', Null)]\<rparr>
                   \<lparr>Error = None, Result = Unknown\<rparr>)) \<noteq> None
   \<and> Result (fst (FormFieldHeaderFunction_Run
                   \<lparr>Arguments_field_id = Known ''xyz_applicant'',
                    Arguments_title = Known [(''en'', Null)]\<rparr>
                   \<lparr>Error = None, Result = Unknown\<rparr>)) = Unknown"
proof -
  have c: "header_arguments_convert
     \<lparr>Arguments_field_id = Known ''xyz_applicant'',
      Arguments_title = Known [(''en'', Known ''Applicant'')]\<rparr>"
    by (simp add: header_arguments_convert_def)
  have n: "\<not> header_arguments_convert
         \<lparr>Arguments_field_id = Known ''xyz_applicant'',
          Arguments_title = Known [(''en'', Null)]\<rparr>"
    by (simp add: header_arguments_convert_def)
  from form_field_header_result
    [of "''xyz_applicant''" "[(''en'', ''Applicant'')]" "\<lparr>Error = None, Result = Unknown\<rparr>"
        "\<lparr>Arguments_field_id = Known ''xyz_applicant'',
          Arguments_title = Known [(''en'', Known ''Applicant'')]\<rparr>"]
    form_field_header_result
    [of "''xyz_applicant''" "[(''en'', ''Applicant'')]" "\<lparr>Error = None, Result = Unknown\<rparr>"
        "\<lparr>Arguments_field_id = Known ''xyz_applicant'',
          Arguments_title = Known [(''en'', Null)]\<rparr>"]
    c n
  show ?thesis by simp
qed

text \<open>
  Claim C10. For every string argument, \<^verbatim>\<open>Run\<close> of \<^verbatim>\<open>form_field_label\<close> returns,
  without error, the object whose title is that string (a string value, where
  \<^verbatim>\<open>form_field_header\<close> has a map), whose type is the string ``label'' and whose optional
  attribute is false; and whenever \<^verbatim>\<open>Run\<close> reports no error the result is that object
  of its argument.
\<close>

theorem form_field_label_result:
  "FormFieldLabelFunction_Run \<lparr>Label_Arguments_title = Known title\<rparr> resp =
     (\<lparr>Error = None,
       Result = Known \<lparr>Label_Object_title = Known title,
                       Label_Object_type = Known ''label'',
                       Label_Object_optional = Known False\<rparr>\<rparr>, [])
   \<and> (Error (fst (FormFieldLabelFunction_Run b resp)) = None \<longrightarrow>
        Result (fst (FormFieldLabelFunction_Run b resp)) =
          Known \<lparr>Label_Object_title = Label_Arguments_title b,
                 Label_Object_type = Known ''label'',
                 Label_Object_optional = Known False\<rparr>)"
  by (cases "Label_Arguments_title b") (auto simp: label_Run_cases)

theorem form_field_label_result_witness:
  "FormFieldLabelFunction_Run \<lparr>Label_Arguments_title = Known ''Purpose''\<rparr>
     \<lparr>Error = None, Result = Unknown\<rparr> =
   (\<lparr>Error = None,
     Result = Known \<lparr>Label_Object_title = Known ''Purpose'',
                     Label_Object_type = Known ''label'',
                     Label_Object_optional = Known False\<rparr>\<rparr>, [])"
  using form_field_label_result
    [of "''Purpose''" "\<lparr>Error = None, Result = Unknown\<rparr>"
        "\<lparr>Label_Arguments_title = Known ''Purpose''\<rparr>"]
  by simp

end
